theory Spec2Isabelle
  imports Complex_Main
begin

section \<open>Regime detector v2 and the paper-trading bot: a shallow embedding\<close>

text \<open>
  The Python sources \<^verbatim>\<open>core/regime_detector_v2.py\<close>, \<^verbatim>\<open>core/regime_detector.py\<close>
  and \<^verbatim>\<open>bot.py\<close> are embedded function by function.

  Numbers: a Python \<^verbatim>\<open>float\<close> and a numpy \<^verbatim>\<open>float64\<close> are modelled by \<^typ>\<open>real\<close>, so
  arithmetic is exact; rounding error, infinities and NaN are not represented. A numpy
  array is a \<^typ>\<open>real list\<close>. Lookback periods are lengths and are modelled by \<^typ>\<open>nat\<close>;
  with a period of zero numpy takes the mean of an empty slice (NaN, with a warning), which
  the model cannot express, so theorems that reach such a mean assume a positive period.
\<close>

subsection \<open>Enumerations and errors\<close>

datatype RegimeType = BEAR_TREND | BULL_TREND | RANGING | NEUTRAL

datatype StrategyType = RSI_MOMENTUM | MEAN_REVERSION

text \<open>The exceptions the embedded code can raise.\<close>

datatype py_error = IndexError | ValueError | ZeroDivisionError

subsection \<open>numpy helpers\<close>

text \<open>\<^verbatim>\<open>xs[-n:]\<close>: the trailing \<open>n\<close> elements; the whole array when \<open>n\<close> is zero
  (\<^verbatim>\<open>xs[-0:]\<close> is \<^verbatim>\<open>xs[0:]\<close>) or larger than the length.\<close>

definition last_n :: "nat \<Rightarrow> 'a list \<Rightarrow> 'a list" where
  "last_n n xs = (if n = 0 then xs else drop (length xs - n) xs)"

text \<open>\<^verbatim>\<open>np.mean\<close> on a non-empty array. (On an empty array numpy returns NaN; here the
  quotient by zero is \<open>0\<close>, and the theorems on the indicators keep to inputs whose means
  are taken over non-empty slices.)\<close>

definition np_mean :: "real list \<Rightarrow> real" where
  "np_mean xs = sum_list xs / real (length xs)"

text \<open>\<^verbatim>\<open>np.diff\<close>: \<open>deltas[i] = xs[i+1] - xs[i]\<close>.\<close>

definition np_diff :: "real list \<Rightarrow> real list" where
  "np_diff xs = map2 (\<lambda>a b. b - a) xs (tl xs)"

subsection \<open>Indicator library\<close>

definition calculate_rsi :: "real list \<Rightarrow> nat \<Rightarrow> real" where
  "calculate_rsi prices period =
     (if length prices < period + 1 then 50
      else
        let deltas = np_diff prices;
            gains = map (\<lambda>d. if d > 0 then d else 0) deltas;
            losses = map (\<lambda>d. if d < 0 then - d else 0) deltas;
            avg_gain = np_mean (last_n period gains);
            avg_loss = np_mean (last_n period losses)
        in if avg_loss = 0 then 100
           else 100 - 100 / (1 + avg_gain / avg_loss))"

text \<open>The local \<^verbatim>\<open>ema(data, period)\<close> of \<^verbatim>\<open>calculate_macd\<close>: \<^verbatim>\<open>data[0]\<close> raises
  \<^verbatim>\<open>IndexError\<close> on an empty slice.\<close>

definition ema_step :: "nat \<Rightarrow> real \<Rightarrow> real \<Rightarrow> real" where
  "ema_step period result x = (x - result) * (2 / (real period + 1)) + result"

definition macd_ema :: "real list \<Rightarrow> nat \<Rightarrow> py_error + real" where
  "macd_ema data period =
     (case data of
        [] \<Rightarrow> Inl IndexError
      | x # rest \<Rightarrow> Inr (foldl (ema_step period) x rest))"

definition calculate_macd ::
  "real list \<Rightarrow> nat \<Rightarrow> nat \<Rightarrow> nat \<Rightarrow> py_error + (real \<times> real \<times> real)" where
  "calculate_macd prices fast slow signal =
     (if length prices < slow + signal then Inr (0, 0, 0)
      else
        case macd_ema (last_n (fast + signal) prices) fast of
          Inl e \<Rightarrow> Inl e
        | Inr ema_fast \<Rightarrow>
            (case macd_ema (last_n (slow + signal) prices) slow of
               Inl e \<Rightarrow> Inl e
             | Inr ema_slow \<Rightarrow>
                 let macd_line = ema_fast - ema_slow;
                     signal_line = macd_line * 0.9;
                     histogram = macd_line - signal_line
                 in Inr (macd_line, signal_line, histogram)))"

text \<open>The true range
  \<^verbatim>\<open>max(high[1:] - low[1:], |high[1:] - close[:-1]|, |low[1:] - close[:-1]|)\<close>.\<close>

definition true_range :: "real list \<Rightarrow> real list \<Rightarrow> real list \<Rightarrow> real list" where
  "true_range high low close =
     map (\<lambda>(h, l, c). max (h - l) (max \<bar>h - c\<bar> \<bar>l - c\<bar>))
       (zip (tl high) (zip (tl low) (butlast close)))"

text \<open>
  \<^verbatim>\<open>wilder_smooth(arr, period)\<close>, for a positive period: the result starts as zeros,
  \<open>result[period-1]\<close> is the mean of the first \<open>period\<close> elements (an \<^verbatim>\<open>IndexError\<close> when
  the array is shorter than \<open>period\<close>), and from index \<open>period\<close> on
  \<open>result[i] = result[i-1] - result[i-1] / period + arr[i]\<close>.
\<close>

fun wilder_loop :: "nat \<Rightarrow> real \<Rightarrow> real list \<Rightarrow> real list" where
  "wilder_loop period prev [] = []"
| "wilder_loop period prev (x # xs) =
     (let r = prev - prev / real period + x in r # wilder_loop period r xs)"

definition wilder_smooth :: "real list \<Rightarrow> nat \<Rightarrow> py_error + real list" where
  "wilder_smooth arr period =
     (if length arr < period then Inl IndexError
      else
        let first = np_mean (take period arr)
        in Inr (replicate (period - 1) 0 @ first # wilder_loop period first (drop period arr)))"

text \<open>
  \<^verbatim>\<open>calculate_adx\<close>. The short-input guard comes first. The element-wise numpy
  operations need arrays of one shape: the spec's contract is equal-length arrays, and for
  arrays of different lengths numpy raises \<^verbatim>\<open>ValueError\<close> (broadcasting of a slice of
  length one is not modelled).
\<close>

definition calculate_adx ::
  "real list \<Rightarrow> real list \<Rightarrow> real list \<Rightarrow> nat \<Rightarrow> py_error + real" where
  "calculate_adx high low close period =
     (if length close < period + 1 then Inr 0
      else if \<not> (length high = length close \<and> length low = length close) then Inl ValueError
      else
        let tr = true_range high low close;
            up_move = map2 (\<lambda>a b. a - b) (tl high) (butlast high);
            down_move = map2 (\<lambda>a b. a - b) (butlast low) (tl low);
            plus_dm = map2 (\<lambda>u d. if u > d \<and> u > 0 then u else 0) up_move down_move;
            minus_dm = map2 (\<lambda>u d. if d > u \<and> d > 0 then d else 0) up_move down_move
        in
          case wilder_smooth tr period of
            Inl e \<Rightarrow> Inl e
          | Inr atr \<Rightarrow>
          (case wilder_smooth plus_dm period of
            Inl e \<Rightarrow> Inl e
          | Inr smooth_plus \<Rightarrow>
          (case wilder_smooth minus_dm period of
            Inl e \<Rightarrow> Inl e
          | Inr smooth_minus \<Rightarrow>
            let plus_di = map2 (\<lambda>s a. 100 * s / (if a > 0 then a else 1)) smooth_plus atr;
                minus_di = map2 (\<lambda>s a. 100 * s / (if a > 0 then a else 1)) smooth_minus atr;
                dx = map2 (\<lambda>p m. 100 * \<bar>p - m\<bar> / (if p + m > 0 then p + m else 1))
                       plus_di minus_di
            in (case wilder_smooth dx period of
                  Inl e \<Rightarrow> Inl e
                | Inr adx \<Rightarrow> Inr (if length adx > 0 then last adx else 0)))))"

definition calculate_atr ::
  "real list \<Rightarrow> real list \<Rightarrow> real list \<Rightarrow> nat \<Rightarrow> py_error + real" where
  "calculate_atr high low close period =
     (if length close < period + 1 then Inr 0
      else if \<not> (length high = length close \<and> length low = length close) then Inl ValueError
      else Inr (np_mean (last_n period (true_range high low close))))"

text \<open>\<^verbatim>\<open>calculate_sma\<close>: the same body in both detector versions (v1 only adds a
  default period).\<close>

definition calculate_sma :: "real list \<Rightarrow> nat \<Rightarrow> real" where
  "calculate_sma prices period =
     (if length prices < period
      then (if length prices > 0 then last prices else 0)
      else np_mean (last_n period prices))"

text \<open>\<^verbatim>\<open>calculate_ema\<close> of v2: the guard is on fewer than two elements (v1 guards on
  fewer than \<open>period\<close> elements); a longer array runs the recurrence from its first
  element, whatever the period.\<close>

definition calculate_ema :: "real list \<Rightarrow> nat \<Rightarrow> real" where
  "calculate_ema prices period =
     (if length prices < 2
      then (if length prices > 0 then last prices else 0)
      else foldl (ema_step period) (hd prices) (tl prices))"

subsection \<open>Regime classifier\<close>

definition detect_regime ::
  "real \<Rightarrow> real \<Rightarrow> real \<Rightarrow> real \<Rightarrow> real \<Rightarrow> RegimeType \<times> StrategyType \<times> real" where
  "detect_regime adx price sma_50 adx_trend_threshold adx_range_threshold =
     (if adx > adx_trend_threshold then
        (if price < sma_50 then (BEAR_TREND, RSI_MOMENTUM, 0.75)
         else (BULL_TREND, MEAN_REVERSION, 1.0))
      else if adx < adx_range_threshold then (RANGING, MEAN_REVERSION, 1.25)
      else (NEUTRAL, MEAN_REVERSION, 0.5))"

subsection \<open>Market analysis\<close>

text \<open>
  Python's \<^verbatim>\<open>round(x, ndigits)\<close> on a float: the nearest multiple of \<open>10^-ndigits\<close>, a
  tie going to the even one.
\<close>

definition py_round :: "real \<Rightarrow> nat \<Rightarrow> real" where
  "py_round x ndigits =
     (let s = 10 ^ ndigits;
          y = x * s;
          f = \<lfloor>y\<rfloor>;
          d = y - of_int f
      in (if d < 1 / 2 then of_int f
          else if d > 1 / 2 then of_int (f + 1)
          else if even f then of_int f else of_int (f + 1)) / s)"

record MarketState =
  price :: real
  sma_50 :: real
  ema_20 :: real
  ema_200 :: real
  rsi_7 :: real
  rsi_14 :: real
  adx :: real
  macd :: real
  macd_signal :: real
  macd_histogram :: real
  atr_14 :: real
  atr_percent :: real
  volume :: real
  volume_sma :: real
  volume_ratio :: real
  regime :: RegimeType
  strategy :: StrategyType
  position_size_multiplier :: real

text \<open>
  \<^verbatim>\<open>analyze_market_v2(high, low, close, volume)\<close> (the symbol argument is unused).
  \<^verbatim>\<open>close[-1]\<close> raises \<^verbatim>\<open>IndexError\<close> on an empty window; the indicator calls follow in
  the source's order, and an exception of one of them ends the analysis.
\<close>

definition analyze_market_v2 ::
  "real list \<Rightarrow> real list \<Rightarrow> real list \<Rightarrow> real list \<Rightarrow> py_error + MarketState" where
  "analyze_market_v2 \<equiv> \<lambda>high low close volumes.
     (if close = [] then Inl IndexError
      else
        let price_now = last close;
            sma50 = calculate_sma close 50;
            ema20 = calculate_ema close 20;
            ema200 = calculate_ema close 200;
            rsi7 = calculate_rsi close 7;
            rsi14 = calculate_rsi close 14
        in
          case calculate_adx high low close 14 of
            Inl e \<Rightarrow> Inl e
          | Inr adx_now \<Rightarrow>
          (case calculate_macd close 12 26 9 of
            Inl e \<Rightarrow> Inl e
          | Inr (macd_line, signal_line, histogram) \<Rightarrow>
          (case calculate_atr high low close 14 of
            Inl e \<Rightarrow> Inl e
          | Inr atr14 \<Rightarrow>
            let atr_pct = (if price_now > 0 then (atr14 / price_now) * 100 else 0);
                vol = (if length volumes > 0 then last volumes else 0);
                vol_sma = calculate_sma volumes 20;
                vol_ratio = (if vol_sma > 0 then vol / vol_sma else 1.0);
                (regime_now, strategy_now, pos_mult0) = detect_regime adx_now price_now sma50 25 20;
                pos_mult1 = (if atr_pct > 5 then pos_mult0 * 0.7
                             else if atr_pct < 2 then pos_mult0 * 1.2
                             else pos_mult0);
                pos_mult2 = (if vol_ratio > 1.5 then pos_mult1 * 1.1
                             else if vol_ratio < 0.5 then pos_mult1 * 0.8
                             else pos_mult1);
                pos_mult = max 0.25 (min 1.5 pos_mult2)
            in Inr \<lparr> price = py_round price_now 2,
                     sma_50 = py_round sma50 2,
                     ema_20 = py_round ema20 2,
                     ema_200 = py_round ema200 2,
                     rsi_7 = py_round rsi7 2,
                     rsi_14 = py_round rsi14 2,
                     adx = py_round adx_now 2,
                     macd = py_round macd_line 4,
                     macd_signal = py_round signal_line 4,
                     macd_histogram = py_round histogram 4,
                     atr_14 = py_round atr14 2,
                     atr_percent = py_round atr_pct 2,
                     volume = py_round vol 2,
                     volume_sma = py_round vol_sma 2,
                     volume_ratio = py_round vol_ratio 2,
                     regime = regime_now,
                     strategy = strategy_now,
                     position_size_multiplier = py_round pos_mult 2 \<rparr>)))"

subsection \<open>Signal generator\<close>

datatype Action = BUY | SELL | HOLD

text \<open>The reason strings, by the rule that appends them (the formatted numbers are kept
  as numbers).\<close>

datatype Reason =
    RSI_oversold real real
  | RSI_overbought real real
  | MACD_bullish_confirmation
  | MACD_bearish_confirmation
  | Momentum_bullish
  | Momentum_bearish
  | High_volume real
  | Neutral_regime_reduced_confidence

text \<open>The returned dictionary; its nested \<^verbatim>\<open>"state"\<close> dictionary is the six numbers
  \<open>sig_state\<close> (price, rsi\_7, rsi\_14, adx, macd\_hist, volume\_ratio). An empty reason list
  stands for the text "No clear signal".\<close>

record Signal =
  sig_action :: Action
  sig_strategy :: StrategyType
  sig_regime :: RegimeType
  sig_confidence :: int
  sig_position_size :: real
  sig_reasoning :: "Reason list"
  sig_state :: "real \<times> real \<times> real \<times> real \<times> real \<times> real"

definition generate_signal :: "MarketState \<Rightarrow> Signal" where
  "generate_signal state =
     (let (action1, confidence1, reasons1) =
            (if strategy state = MEAN_REVERSION then
               (let (a, c, r) =
                      (if rsi_7 state < 30 \<and> rsi_14 state < 40
                         then (BUY, 70, [RSI_oversold (rsi_7 state) (rsi_14 state)])
                       else if rsi_7 state > 70 \<and> rsi_14 state > 60
                         then (SELL, 70, [RSI_overbought (rsi_7 state) (rsi_14 state)])
                       else (HOLD, 50, []))
                in if a = BUY \<and> macd_histogram state > 0
                     then (a, c + 10, r @ [MACD_bullish_confirmation])
                   else if a = SELL \<and> macd_histogram state < 0
                     then (a, c + 10, r @ [MACD_bearish_confirmation])
                   else (a, c, r))
             else
               (if rsi_14 state > 50 \<and> macd_histogram state > 0 \<and> price state > ema_20 state
                  then (BUY, 65, [Momentum_bullish])
                else if rsi_14 state < 50 \<and> macd_histogram state < 0
                          \<and> price state < ema_20 state
                  then (SELL, 65, [Momentum_bearish])
                else (HOLD, 50, [])));
          (confidence2, reasons2) =
            (if volume_ratio state > 1.5
               then (confidence1 + 10, reasons1 @ [High_volume (volume_ratio state)])
             else (confidence1, reasons1));
          (confidence3, reasons3) =
            (if regime state = NEUTRAL
               then (confidence2 - 15, reasons2 @ [Neutral_regime_reduced_confidence])
             else (confidence2, reasons2));
          confidence4 = max 0 (min 100 confidence3)
      in \<lparr> sig_action = action1,
           sig_strategy = strategy state,
           sig_regime = regime state,
           sig_confidence = confidence4,
           sig_position_size = position_size_multiplier state,
           sig_reasoning = reasons3,
           sig_state = (price state, rsi_7 state, rsi_14 state, adx state,
                        macd_histogram state, volume_ratio state) \<rparr>)"

subsection \<open>The paper-trading bot: \<open>TradingBot.execute_signal\<close>\<close>

text \<open>
  Modelled from the spec: \<^verbatim>\<open>SignalType\<close> and \<^verbatim>\<open>CompositeSignal\<close>, which are declared in
  \<^verbatim>\<open>signal_engine\<close>, a module that is not among the sources. The signal type is the
  five-level scale \<open>{STRONG_LONG, LONG, NEUTRAL, SHORT, STRONG_SHORT}\<close>, under the names
  that \<^verbatim>\<open>bot.py\<close> itself uses; of a composite signal only the attributes that
  \<^verbatim>\<open>execute_signal\<close> reads are kept.
\<close>

datatype SignalType =
    SignalType_STRONG_LONG
  | SignalType_LONG
  | SignalType_NEUTRAL
  | SignalType_SHORT
  | SignalType_STRONG_SHORT

record CompositeSignal =
  cs_signal :: SignalType
  cs_confidence :: real
  cs_price :: real

datatype Side = long | short

record Position =
  entry_price :: real
  qty :: real
  side :: Side
  entry_time :: string
  signal_confidence :: real

text \<open>A closed trade: the position with its exit price, exit time, profit and reason.\<close>

record Trade = Position +
  exit_price :: real
  exit_time :: string
  pnl :: real
  reason :: string

text \<open>\<^verbatim>\<open>self.state\<close>, the dictionary that \<^verbatim>\<open>_save_state\<close> writes.\<close>

record BotState =
  balance :: real
  positions :: "string \<rightharpoonup> Position"
  trades :: "Trade list"
  signals_generated :: nat
  start_time :: string

text \<open>What the bot writes to the terminal, by message.\<close>

datatype Printed =
    Confidence_too_low real
  | Already_have_position string
  | Paper_trade Side string real real

text \<open>The alert sent for an opened position: the signal with its stop loss and take
  profit.\<close>

record Alert =
  alert_signal :: CompositeSignal
  stop_loss :: real
  take_profit :: real

text \<open>
  The bot object with the world it acts on: the terminal output, the alerts sent through
  the webhook, and the content of \<^verbatim>\<open>bot_state.json\<close> (\<open>None\<close> before the first save).
\<close>

record TradingBot =
  position_size_pct :: real
  stop_loss_pct :: real
  take_profit_pct :: real
  alerter_enabled :: bool
  state :: BotState
  printed :: "Printed list"
  alerts_sent :: "Alert list"
  saved_state :: "BotState option"

text \<open>
  \<^verbatim>\<open>execute_signal(pair, signal)\<close>; \<open>now\<close> is the timestamp that \<^verbatim>\<open>datetime.now()\<close>
  gives. The price is taken as a Python float, whose division by zero raises.
\<close>

definition execute_signal ::
  "TradingBot \<Rightarrow> string \<Rightarrow> CompositeSignal \<Rightarrow> string \<Rightarrow> py_error + TradingBot" where
  "execute_signal self pair sig now =
     (if cs_signal sig = SignalType_NEUTRAL then Inr self
      else if cs_confidence sig < 65
        then Inr (self\<lparr>printed := printed self @ [Confidence_too_low (cs_confidence sig)]\<rparr>)
      else if pair \<in> dom (positions (state self))
        then Inr (self\<lparr>printed := printed self @ [Already_have_position pair]\<rparr>)
      else
        let sd = (if cs_signal sig = SignalType_LONG \<or> cs_signal sig = SignalType_STRONG_LONG
                  then long else short);
            position_value = balance (state self) * position_size_pct self
        in if cs_price sig = 0 then Inl ZeroDivisionError
           else
             let q = position_value / cs_price sig;
                 pos = \<lparr> entry_price = cs_price sig, qty = q, side = sd,
                         entry_time = now, signal_confidence = cs_confidence sig \<rparr>;
                 st = (state self)\<lparr>positions := (positions (state self))(pair \<mapsto> pos)\<rparr>;
                 out = printed self @ [Paper_trade sd pair (cs_price sig) q];
                 sent =
                   (if alerter_enabled self then
                      alerts_sent self @
                        [\<lparr> alert_signal = sig,
                           stop_loss = (if sd = long then cs_price sig * (1 - stop_loss_pct self)
                                        else cs_price sig * (1 + stop_loss_pct self)),
                           take_profit = (if sd = long then cs_price sig * (1 + take_profit_pct self)
                                          else cs_price sig * (1 - take_profit_pct self)) \<rparr>]
                    else alerts_sent self)
             in Inr (self\<lparr>state := st, printed := out, alerts_sent := sent,
                         saved_state := Some st\<rparr>))"

subsection \<open>The pipeline and concrete inputs\<close>

text \<open>The callers (\<^verbatim>\<open>live_signal_test.analyze_coin\<close> and the module's own command-line
  test) run \<^verbatim>\<open>state = analyze_market_v2(...)\<close> and then \<^verbatim>\<open>generate_signal(state)\<close>.\<close>

definition analyze_and_signal ::
  "real list \<Rightarrow> real list \<Rightarrow> real list \<Rightarrow> real list \<Rightarrow> py_error + (MarketState \<times> Signal)" where
  "analyze_and_signal high low close volumes =
     (case analyze_market_v2 high low close volumes of
        Inl e \<Rightarrow> Inl e
      | Inr st \<Rightarrow> Inr (st, generate_signal st))"

text \<open>The flat window of the spec's scenario: sixty bars, every price 100.\<close>

definition flat_window :: "real list" where
  "flat_window = replicate 60 100"

text \<open>Sixteen bars that rise by one each bar: high, low and close of bar \<open>i\<close> are
  \<open>i + 1\<close>, \<open>i\<close> and \<open>i + 1/2\<close>.\<close>

definition rising_high :: "real list" where
  "rising_high = [1, 2, 3, 4, 5, 6, 7, 8, 9, 10, 11, 12, 13, 14, 15, 16]"

definition rising_low :: "real list" where
  "rising_low = [0, 1, 2, 3, 4, 5, 6, 7, 8, 9, 10, 11, 12, 13, 14, 15]"

definition rising_close :: "real list" where
  "rising_close = [0.5, 1.5, 2.5, 3.5, 4.5, 5.5, 6.5, 7.5, 8.5, 9.5, 10.5, 11.5, 12.5, 13.5,
                   14.5, 15.5]"

text \<open>An oversold market state (RSI-7 of 25, RSI-14 of 35) for the mean-reversion
  strategy, in the given regime, with a flat MACD histogram and average volume.\<close>

definition oversold_state :: "RegimeType \<Rightarrow> MarketState" where
  "oversold_state r =
     \<lparr> price = 100, sma_50 = 100, ema_20 = 100, ema_200 = 100, rsi_7 = 25, rsi_14 = 35,
       adx = 22, macd = 0, macd_signal = 0, macd_histogram = 0, atr_14 = 3, atr_percent = 3,
       volume = 1000, volume_sma = 1000, volume_ratio = 1,
       regime = r, strategy = MEAN_REVERSION, position_size_multiplier = 0.5 \<rparr>"

text \<open>A bot as \<^verbatim>\<open>TradingBot()\<close> builds it by default: balance 10000, no position, five
  percent position size, stop loss and take profit, alerts off.\<close>

definition fresh_bot :: TradingBot where
  "fresh_bot =
     \<lparr> position_size_pct = 0.05, stop_loss_pct = 0.05, take_profit_pct = 0.05,
       alerter_enabled = False,
       state = \<lparr> balance = 10000, positions = Map.empty, trades = [],
                 signals_generated = 0, start_time = ''2026-02-03T00:00:00'' \<rparr>,
       printed = [], alerts_sent = [], saved_state = None \<rparr>"

section \<open>Auxiliary facts\<close>

subsection \<open>Slices and constant arrays\<close>

lemma last_n_nonempty: "xs \<noteq> [] \<Longrightarrow> last_n k xs \<noteq> []"
  by (cases xs; cases k) (simp_all add: last_n_def)

lemma last_n_replicate: "last_n k (replicate n c) = replicate (if k = 0 then n else min k n) c"
  by (auto simp: last_n_def min_def)

lemma sum_list_zeros: "sum_list (replicate k (0::real)) = 0"
  by (induction k) simp_all

lemma sum_list_replicate_real: "sum_list (replicate k (c::real)) = real k * c"
  by (induction k) (simp_all add: algebra_simps)

lemma butlast_replicate_eq: "butlast (replicate n x) = replicate (n - 1) x"
proof (induction n)
  case 0
  show ?case by simp
next
  case (Suc n)
  then show ?case by (cases n) simp_all
qed

lemma zeros_split:
  assumes "0 < p" and "p \<le> k"
  shows "replicate (p - Suc 0) (0::real) @ 0 # replicate (k - p) 0 = replicate k 0"
proof -
  have "replicate (p - Suc 0) (0::real) @ 0 # replicate (k - p) 0
        = replicate (p - Suc 0) 0 @ replicate (Suc (k - p)) 0" by simp
  also have "\<dots> = replicate ((p - Suc 0) + Suc (k - p)) 0"
    by (simp only: replicate_add)
  also have "(p - Suc 0) + Suc (k - p) = k" using assms by simp
  finally show ?thesis .
qed

subsection \<open>The indicators on a flat window\<close>

lemma wilder_loop_zeros: "wilder_loop p 0 (replicate k 0) = replicate k 0"
  by (induction k) (simp_all add: Let_def)

lemma wilder_smooth_zeros:
  "p \<le> k \<Longrightarrow> 0 < p \<Longrightarrow> wilder_smooth (replicate k 0) p = Inr (replicate k 0)"
  by (simp add: wilder_smooth_def np_mean_def Let_def wilder_loop_zeros sum_list_zeros zeros_split)

lemma true_range_flat:
  "true_range (replicate n c) (replicate n c) (replicate n c) = replicate (n - 1) 0"
  by (simp add: true_range_def butlast_replicate_eq)

lemma adx_flat:
  "0 < p \<Longrightarrow> p < n \<Longrightarrow> calculate_adx (replicate n c) (replicate n c) (replicate n c) p = Inr 0"
  by (simp add: calculate_adx_def true_range_flat wilder_smooth_zeros Let_def butlast_replicate_eq)

lemma atr_flat:
  "0 < p \<Longrightarrow> calculate_atr (replicate n c) (replicate n c) (replicate n c) p = Inr 0"
  by (simp add: calculate_atr_def true_range_flat np_mean_def last_n_def sum_list_zeros)

lemma rsi_flat: "p + 1 \<le> n \<Longrightarrow> 2 \<le> n \<Longrightarrow> calculate_rsi (replicate n c) p = 100"
  by (simp add: calculate_rsi_def np_diff_def np_mean_def last_n_def Let_def sum_list_zeros)

lemma foldl_ema_flat: "foldl (ema_step p) c (replicate k c) = c"
  by (induction k) (simp_all add: ema_step_def)

lemma ema_flat: "calculate_ema (replicate n c) p = (if n = 0 then 0 else c)"
  by (cases n) (simp_all add: calculate_ema_def foldl_ema_flat)

lemma macd_ema_flat: "0 < n \<Longrightarrow> macd_ema (replicate n c) p = Inr c"
  by (cases n) (simp_all add: macd_ema_def foldl_ema_flat)

lemma macd_flat: "0 < n \<Longrightarrow> calculate_macd (replicate n c) f s g = Inr (0, 0, 0)"
  by (simp add: calculate_macd_def last_n_replicate macd_ema_flat Let_def)

lemma sma_flat: "0 < n \<Longrightarrow> calculate_sma (replicate n c) p = c"
  by (auto simp: calculate_sma_def np_mean_def last_n_replicate sum_list_replicate_real min_def)

subsection \<open>Rounding\<close>

text \<open>Rounding is monotone against multiples of the rounding unit: a value between two
  such multiples is rounded to a value between them.\<close>

lemma py_round_between:
  assumes "real_of_int a / 10 ^ n \<le> x" and "x \<le> real_of_int b / 10 ^ n"
  shows "real_of_int a / 10 ^ n \<le> py_round x n \<and> py_round x n \<le> real_of_int b / 10 ^ n"
proof -
  define s :: real where "s = 10 ^ n"
  have s: "0 < s" by (simp add: s_def)
  define y where "y = x * s"
  define f where "f = \<lfloor>y\<rfloor>"
  have ya: "real_of_int a \<le> y" using assms(1) s by (simp add: y_def s_def pos_divide_le_eq)
  have yb: "y \<le> real_of_int b" using assms(2) s by (simp add: y_def s_def pos_le_divide_eq)
  have fa: "a \<le> f" using ya by (simp add: f_def le_floor_iff)
  have fb: "f \<le> b" using yb by (simp add: f_def floor_le_iff)
  have up: "f + 1 \<le> b" if "y - real_of_int f \<ge> 1 / 2"
  proof -
    have "real_of_int f < y" using that by simp
    then have "real_of_int f < real_of_int b" using yb by simp
    then show ?thesis by simp
  qed
  have lo: "real_of_int a / s \<le> real_of_int f / s" using fa s by (simp add: divide_le_cancel)
  have lo': "real_of_int a / s \<le> real_of_int (f + 1) / s" using fa s by (simp add: divide_le_cancel)
  have hi: "real_of_int f / s \<le> real_of_int b / s" using fb s by (simp add: divide_le_cancel)
  have hi': "real_of_int (f + 1) / s \<le> real_of_int b / s" if "y - real_of_int f \<ge> 1 / 2"
    using up [OF that] s by (simp add: divide_le_cancel)
  have r: "py_round x n =
     (if y - real_of_int f < 1 / 2 then real_of_int f
      else if y - real_of_int f > 1 / 2 then real_of_int (f + 1)
      else if even f then real_of_int f else real_of_int (f + 1)) / s"
    by (simp add: py_round_def Let_def s_def y_def f_def)
  show ?thesis
    unfolding r s_def [symmetric]
    using lo lo' hi hi' by (auto simp: not_less)
qed

lemma py_round_of_int: "py_round (real_of_int k) n = real_of_int k"
  by (simp add: py_round_def Let_def)

lemma py_round_100: "py_round 100 2 = 100"
  using py_round_of_int [of 100 2] by simp

lemma py_round_0: "py_round 0 n = 0"
  by (simp add: py_round_def Let_def)

lemma clamp_round:
  "0.25 \<le> py_round (max 0.25 (min 1.5 x)) 2 \<and> py_round (max 0.25 (min 1.5 x)) 2 \<le> 1.5"
  using py_round_between [of 25 2 "max 0.25 (min 1.5 x)" 150] by simp

subsection \<open>The indicators return on well-shaped input\<close>

lemma length_wilder_loop: "length (wilder_loop p prev xs) = length xs"
  by (induction xs arbitrary: prev) (simp_all add: Let_def)

lemma wilder_smooth_returns:
  assumes "p \<le> length arr"
  shows "\<exists>r. wilder_smooth arr p = Inr r \<and> length arr \<le> length r"
  using assms by (simp add: wilder_smooth_def Let_def length_wilder_loop)

lemma calculate_adx_stages:
  assumes hl: "length high = length close" and ll: "length low = length close"
    and long: "\<not> length close < p + 1"
  shows "\<exists>atr sp sm ad.
     wilder_smooth
       (map2 (\<lambda>u d. if u > d \<and> u > 0 then u else 0)
          (map2 (\<lambda>a b. a - b) (tl high) (butlast high))
          (map2 (\<lambda>a b. a - b) (butlast low) (tl low))) p = Inr sp
     \<and> wilder_smooth
       (map2 (\<lambda>u d. if d > u \<and> d > 0 then d else 0)
          (map2 (\<lambda>a b. a - b) (tl high) (butlast high))
          (map2 (\<lambda>a b. a - b) (butlast low) (tl low))) p = Inr sm
     \<and> wilder_smooth
       (map2 (\<lambda>p m. 100 * \<bar>p - m\<bar> / (if p + m > 0 then p + m else 1))
          (map2 (\<lambda>s a. 100 * s / (if a > 0 then a else 1)) sp atr)
          (map2 (\<lambda>s a. 100 * s / (if a > 0 then a else 1)) sm atr)) p = Inr ad
     \<and> calculate_adx high low close p = Inr (if length ad > 0 then last ad else 0)"
proof -
  let ?tr = "true_range high low close"
  let ?up = "map2 (\<lambda>a b. a - b) (tl high) (butlast high)"
  let ?down = "map2 (\<lambda>a b. a - b) (butlast low) (tl low)"
  let ?plus = "map2 (\<lambda>u d. if u > d \<and> u > 0 then u else 0) ?up ?down"
  let ?minus = "map2 (\<lambda>u d. if d > u \<and> d > 0 then d else 0) ?up ?down"
  have n: "p \<le> length close - 1" using long by simp
  have "length ?tr = length close - 1" using hl ll by (simp add: true_range_def)
  then obtain atr where atr: "wilder_smooth ?tr p = Inr atr" and latr: "p \<le> length atr"
    using wilder_smooth_returns [of p ?tr] n by auto
  have "length ?plus = length close - 1" using hl ll by simp
  then obtain sp where sp: "wilder_smooth ?plus p = Inr sp" and lsp: "p \<le> length sp"
    using wilder_smooth_returns [of p ?plus] n by auto
  have "length ?minus = length close - 1" using hl ll by simp
  then obtain sm where sm: "wilder_smooth ?minus p = Inr sm" and lsm: "p \<le> length sm"
    using wilder_smooth_returns [of p ?minus] n by auto
  let ?dx = "map2 (\<lambda>p m. 100 * \<bar>p - m\<bar> / (if p + m > 0 then p + m else 1))
               (map2 (\<lambda>s a. 100 * s / (if a > 0 then a else 1)) sp atr)
               (map2 (\<lambda>s a. 100 * s / (if a > 0 then a else 1)) sm atr)"
  have "p \<le> length ?dx" using latr lsp lsm by simp
  then obtain ad where ad: "wilder_smooth ?dx p = Inr ad"
    using wilder_smooth_returns [of p ?dx] by auto
  have "calculate_adx high low close p = Inr (if length ad > 0 then last ad else 0)"
    unfolding calculate_adx_def Let_def
    using long hl ll by (simp add: atr sp sm ad)
  then show ?thesis using sp sm ad by blast
qed

lemma calculate_adx_returns:
  assumes hl: "length high = length close" and ll: "length low = length close"
  shows "\<exists>v. calculate_adx high low close p = Inr v"
proof (cases "length close < p + 1")
  case True
  then show ?thesis by (simp add: calculate_adx_def)
next
  case False
  show ?thesis using calculate_adx_stages [OF hl ll False] by blast
qed

lemma calculate_atr_returns:
  assumes "length high = length close" and "length low = length close"
  shows "\<exists>v. calculate_atr high low close p = Inr v"
  using assms by (simp add: calculate_atr_def)

lemma macd_ema_returns: "xs \<noteq> [] \<Longrightarrow> \<exists>v. macd_ema xs p = Inr v"
  by (cases xs) (simp_all add: macd_ema_def)

lemma calculate_macd_shape:
  assumes "prices \<noteq> []"
  shows "\<exists>m. calculate_macd prices f sl sg = Inr (m, 0.9 * m, m - 0.9 * m)"
proof -
  obtain a where a: "macd_ema (last_n (f + sg) prices) f = Inr a"
    using macd_ema_returns [OF last_n_nonempty [OF assms]] by blast
  obtain b where b: "macd_ema (last_n (sl + sg) prices) sl = Inr b"
    using macd_ema_returns [OF last_n_nonempty [OF assms]] by blast
  show ?thesis
  proof (cases "length prices < sl + sg")
    case True
    then have "calculate_macd prices f sl sg = Inr (0, 0.9 * 0, 0 - 0.9 * 0)"
      by (simp add: calculate_macd_def)
    then show ?thesis by blast
  next
    case False
    then have "calculate_macd prices f sl sg = Inr (a - b, (a - b) * 0.9, (a - b) - (a - b) * 0.9)"
      by (simp only: calculate_macd_def a b Let_def if_False sum.case)
    then have "calculate_macd prices f sl sg = Inr (a - b, 0.9 * (a - b), (a - b) - 0.9 * (a - b))"
      by (simp only: mult.commute [of "a - b" "0.9"])
    then show ?thesis by blast
  qed
qed

subsection \<open>Bounds through the smoothing\<close>

lemma sum_list_upper: "(\<And>x. x \<in> set xs \<Longrightarrow> x \<le> (b::real)) \<Longrightarrow> sum_list xs \<le> real (length xs) * b"
proof (induction xs)
  case Nil
  show ?case by simp
next
  case (Cons a xs)
  have "a \<le> b" using Cons.prems by simp
  moreover have "sum_list xs \<le> real (length xs) * b" using Cons by simp
  ultimately show ?case by (simp add: algebra_simps)
qed

lemma np_mean_bounds:
  assumes "xs \<noteq> []" and "\<And>x. x \<in> set xs \<Longrightarrow> 0 \<le> x \<and> x \<le> b"
  shows "0 \<le> np_mean xs \<and> np_mean xs \<le> b"
proof -
  have n: "0 < real (length xs)" using assms(1) by simp
  have "0 \<le> sum_list xs" using assms(2) by (simp add: sum_list_nonneg)
  moreover have "sum_list xs \<le> real (length xs) * b" using assms(2) by (simp add: sum_list_upper)
  ultimately show ?thesis using n by (simp add: np_mean_def pos_divide_le_eq mult.commute)
qed

lemma np_mean_nonneg:
  assumes "\<And>x. x \<in> set xs \<Longrightarrow> 0 \<le> x"
  shows "0 \<le> np_mean xs"
  using assms by (simp add: np_mean_def sum_list_nonneg)

lemma wilder_step_nonneg:
  assumes "0 < p" and "0 \<le> prev" and "0 \<le> x"
  shows "0 \<le> prev - prev / real p + x"
proof -
  have "prev / real p \<le> prev" using assms(1,2) by (simp add: divide_le_eq mult_le_cancel_left1)
  then show ?thesis using assms(3) by simp
qed

lemma wilder_step_upper:
  assumes "0 < p" and "prev \<le> 100 * real p" and "x \<le> 100"
  shows "prev - prev / real p + x \<le> 100 * real p"
proof -
  have "real p * (prev - prev / real p + x) = prev * (real p - 1) + real p * x"
    using assms(1) by (simp add: algebra_simps)
  also have "\<dots> \<le> 100 * real p * (real p - 1) + real p * 100"
    using assms by (intro add_mono mult_right_mono mult_left_mono) simp_all
  also have "\<dots> = real p * (100 * real p)" by (simp add: algebra_simps)
  finally show ?thesis using assms(1) by simp
qed

lemma wilder_loop_nonneg:
  "0 < p \<Longrightarrow> 0 \<le> prev \<Longrightarrow> (\<forall>x\<in>set xs. 0 \<le> x) \<Longrightarrow> \<forall>y\<in>set (wilder_loop p prev xs). 0 \<le> y"
proof (induction xs arbitrary: prev)
  case Nil
  show ?case by simp
next
  case (Cons x xs)
  have r: "0 \<le> prev - prev / real p + x"
    using Cons.prems by (simp add: wilder_step_nonneg)
  have "\<forall>y\<in>set (wilder_loop p (prev - prev / real p + x) xs). 0 \<le> y"
    using Cons.IH [OF Cons.prems(1) r] Cons.prems(3) by simp
  then show ?case using r by (simp add: Let_def)
qed

lemma wilder_loop_bounded:
  "0 < p \<Longrightarrow> 0 \<le> prev \<Longrightarrow> prev \<le> 100 * real p \<Longrightarrow> (\<forall>x\<in>set xs. 0 \<le> x \<and> x \<le> 100) \<Longrightarrow>
   \<forall>y\<in>set (wilder_loop p prev xs). 0 \<le> y \<and> y \<le> 100 * real p"
proof (induction xs arbitrary: prev)
  case Nil
  show ?case by simp
next
  case (Cons x xs)
  have x: "0 \<le> x" "x \<le> 100" using Cons.prems(4) by simp_all
  have r: "0 \<le> prev - prev / real p + x"
    using Cons.prems x by (simp add: wilder_step_nonneg)
  have u: "prev - prev / real p + x \<le> 100 * real p"
    using Cons.prems x by (simp add: wilder_step_upper)
  have "\<forall>y\<in>set (wilder_loop p (prev - prev / real p + x) xs). 0 \<le> y \<and> y \<le> 100 * real p"
    using Cons.IH [OF Cons.prems(1) r u] Cons.prems(4) by simp
  then show ?case using r u by (simp add: Let_def)
qed


lemma wilder_smooth_nonneg:
  assumes "0 < p" and "wilder_smooth arr p = Inr r" and "\<forall>x\<in>set arr. 0 \<le> x"
  shows "\<forall>y\<in>set r. 0 \<le> y"
proof -
  let ?first = "np_mean (take p arr)"
  have r: "r = replicate (p - 1) 0 @ ?first # wilder_loop p ?first (drop p arr)"
    using assms(2) by (simp add: wilder_smooth_def Let_def split: if_splits)
  have f: "0 \<le> ?first"
    using assms(3) by (intro np_mean_nonneg) (auto dest: in_set_takeD)
  have "\<forall>y\<in>set (wilder_loop p ?first (drop p arr)). 0 \<le> y"
    using assms(3) by (intro wilder_loop_nonneg assms(1) f) (auto dest: in_set_dropD)
  then show ?thesis using f by (auto simp: r)
qed

lemma wilder_smooth_bounded:
  assumes "0 < p" and "wilder_smooth arr p = Inr r" and "\<forall>x\<in>set arr. 0 \<le> x \<and> x \<le> 100"
  shows "\<forall>y\<in>set r. 0 \<le> y \<and> y \<le> 100 * real p"
proof -
  let ?first = "np_mean (take p arr)"
  have len: "p \<le> length arr"
    using assms(2) by (simp add: wilder_smooth_def split: if_splits)
  have r: "r = replicate (p - 1) 0 @ ?first # wilder_loop p ?first (drop p arr)"
    using assms(2) by (simp add: wilder_smooth_def Let_def split: if_splits)
  have ne: "take p arr \<noteq> []" using len assms(1) by auto
  have f: "0 \<le> ?first \<and> ?first \<le> 100"
    using assms(3) by (intro np_mean_bounds ne) (auto dest: in_set_takeD)
  have p1: "(100::real) \<le> 100 * real p" using assms(1) by simp
  then have fu: "?first \<le> 100 * real p" using f by linarith
  have "\<forall>y\<in>set (wilder_loop p ?first (drop p arr)). 0 \<le> y \<and> y \<le> 100 * real p"
    using assms(3) f fu by (intro wilder_loop_bounded assms(1)) (auto dest: in_set_dropD)
  then show ?thesis using f fu by (auto simp: r)
qed

lemma true_range_nonneg: "\<forall>x\<in>set (true_range high low close). 0 \<le> x"
  by (auto simp: true_range_def max_def)

lemma di_nonneg:
  assumes "\<forall>x\<in>set s. (0::real) \<le> x"
  shows "\<forall>y\<in>set (map2 (\<lambda>s a. 100 * s / (if a > 0 then a else 1)) s atr). 0 \<le> y"
  using assms by (auto dest!: set_zip_leftD)

lemma dx_step_bounds:
  assumes "(0::real) \<le> a" and "0 \<le> b"
  shows "0 \<le> 100 * \<bar>a - b\<bar> / (if a + b > 0 then a + b else 1)
         \<and> 100 * \<bar>a - b\<bar> / (if a + b > 0 then a + b else 1) \<le> 100"
proof (cases "a + b > 0")
  case True
  have "\<bar>a - b\<bar> \<le> a + b" using assms by simp
  then show ?thesis using True by (simp add: divide_le_eq)
next
  case False
  then have "a = 0" "b = 0" using assms by simp_all
  then show ?thesis by simp
qed

lemma dx_bounds:
  assumes "\<forall>x\<in>set ps. (0::real) \<le> x" and "\<forall>x\<in>set ms. (0::real) \<le> x"
  shows "\<forall>y\<in>set (map2 (\<lambda>p m. 100 * \<bar>p - m\<bar> / (if p + m > 0 then p + m else 1)) ps ms).
           0 \<le> y \<and> y \<le> 100"
proof
  fix y
  assume "y \<in> set (map2 (\<lambda>p m. 100 * \<bar>p - m\<bar> / (if p + m > 0 then p + m else 1)) ps ms)"
  then obtain a b where ab: "(a, b) \<in> set (zip ps ms)"
    and y: "y = 100 * \<bar>a - b\<bar> / (if a + b > 0 then a + b else 1)"
    by auto
  have "0 \<le> a" "0 \<le> b"
    using ab assms by (auto dest: set_zip_leftD set_zip_rightD)
  then show "0 \<le> y \<and> y \<le> 100" unfolding y by (rule dx_step_bounds)
qed

lemma dm_nonneg:
  "\<forall>x\<in>set (map2 (\<lambda>u d. if u > d \<and> u > 0 then u else 0) us ds). (0::real) \<le> x"
  "\<forall>x\<in>set (map2 (\<lambda>u d. if d > u \<and> d > 0 then d else 0) us ds). (0::real) \<le> x"
  by auto

lemma set_last_n: "set (last_n k xs) \<subseteq> set xs"
  by (auto simp: last_n_def dest: in_set_dropD)

subsection \<open>The market state of the flat window\<close>

lemma flat_state:
  "\<exists>vol vsma vratio psm.
     analyze_market_v2 flat_window flat_window flat_window vols =
       Inr \<lparr> price = 100, sma_50 = 100, ema_20 = 100, ema_200 = 100, rsi_7 = 100, rsi_14 = 100,
             adx = 0, macd = 0, macd_signal = 0, macd_histogram = 0, atr_14 = 0, atr_percent = 0,
             volume = vol, volume_sma = vsma, volume_ratio = vratio,
             regime = RANGING, strategy = MEAN_REVERSION, position_size_multiplier = psm \<rparr>"
  by (simp add: analyze_market_v2_def flat_window_def sma_flat ema_flat rsi_flat adx_flat
      atr_flat macd_flat detect_regime_def py_round_100 py_round_0 Let_def)

section \<open>The claims\<close>


text \<open>
  C1. With the default thresholds 25 and 20, \<open>detect_regime\<close> follows the ordered decision
  table on every triple \<open>(adx, price, sma_50)\<close>: bear trend, then bull trend, then ranging,
  otherwise neutral; and \<open>adx = 25\<close> and \<open>adx = 20\<close> are both classified NEUTRAL, whatever
  the price and the moving average.
\<close>

theorem detect_regime_decision_table:
  "detect_regime a p s 25 20 =
     (if a > 25 \<and> p < s then (BEAR_TREND, RSI_MOMENTUM, 0.75)
      else if a > 25 \<and> p \<ge> s then (BULL_TREND, MEAN_REVERSION, 1.0)
      else if a < 20 then (RANGING, MEAN_REVERSION, 1.25)
      else (NEUTRAL, MEAN_REVERSION, 0.5))
   \<and> detect_regime 25 p s 25 20 = (NEUTRAL, MEAN_REVERSION, 0.5)
   \<and> detect_regime 20 p s 25 20 = (NEUTRAL, MEAN_REVERSION, 0.5)"
  by (simp add: detect_regime_def)

text \<open>
  C2. The claim bounds the ADX by 100. On sixteen steadily rising bars (equal-length
  arrays, period 14) \<open>calculate_adx\<close> returns \<open>5225/49\<close>, about 106.6: the last smoothing
  pass adds each new DX value undivided to the running value, so the result is on a scale
  of up to \<open>100 * period\<close>.
\<close>

theorem calculate_adx_rising_exceeds_100:
  "length rising_high = length rising_close \<and> length rising_low = length rising_close
   \<and> calculate_adx rising_high rising_low rising_close 14 = Inr (5225 / 49)
   \<and> (100::real) < 5225 / 49"
  by code_simp

text \<open>
  C3 (as amended). On the flat window of sixty bars at 100, with any volume array, the
  analysis returns a state with both RSI values at 100 (the zero-average-loss cap), an ADX
  of 0, regime RANGING and strategy MEAN\_REVERSION, and the generated signal's action is
  SELL (the overbought rule), not HOLD.
\<close>

theorem flat_window_pipeline:
  "\<exists>st sg. analyze_and_signal flat_window flat_window flat_window vols = Inr (st, sg)
     \<and> rsi_7 st = 100 \<and> rsi_14 st = 100 \<and> adx st = 0
     \<and> regime st = RANGING \<and> strategy st = MEAN_REVERSION
     \<and> sig_action sg = SELL"
proof -
  obtain st where st: "analyze_market_v2 flat_window flat_window flat_window vols = Inr st"
    and f: "rsi_7 st = 100" "rsi_14 st = 100" "adx st = 0"
      "regime st = RANGING" "strategy st = MEAN_REVERSION"
    using flat_state [of vols] by auto
  have "sig_action (generate_signal st) = SELL"
    using f by (simp add: generate_signal_def Let_def)
  then show ?thesis using st f by (simp add: analyze_and_signal_def)
qed

text \<open>The claim as stated fails: with a constant volume of 1000 the pipeline returns
  exactly this state and this signal, with RSI 100 rather than about 50 and action SELL
  rather than HOLD.\<close>

theorem flat_window_counterexample:
  "analyze_and_signal flat_window flat_window flat_window (replicate 60 1000) =
     Inr (\<lparr> price = 100, sma_50 = 100, ema_20 = 100, ema_200 = 100, rsi_7 = 100, rsi_14 = 100,
             adx = 0, macd = 0, macd_signal = 0, macd_histogram = 0, atr_14 = 0, atr_percent = 0,
             volume = 1000, volume_sma = 1000, volume_ratio = 1,
             regime = RANGING, strategy = MEAN_REVERSION, position_size_multiplier = 1.5 \<rparr>,
          \<lparr> sig_action = SELL, sig_strategy = MEAN_REVERSION, sig_regime = RANGING,
             sig_confidence = 70, sig_position_size = 1.5,
             sig_reasoning = [RSI_overbought 100 100],
             sig_state = (100, 100, 100, 0, 0, 1) \<rparr>)
   \<and> SELL \<noteq> HOLD \<and> (100::real) \<noteq> 50"
  using py_round_of_int [of 1000 2] py_round_of_int [of 1 2]
    py_round_between [of 150 2 "3/2" 150]
  by (simp add: analyze_and_signal_def analyze_market_v2_def flat_window_def sma_flat ema_flat
      rsi_flat adx_flat atr_flat macd_flat detect_regime_def py_round_100 py_round_0 Let_def
      generate_signal_def)

text \<open>
  C4 (as amended). On a non-empty array with fewer than \<open>period\<close> elements
  \<open>calculate_sma\<close> returns the last element (not the mean of the available ones); on an
  array of at least \<open>period\<close> elements, for a positive period, it returns the mean of the
  trailing \<open>period\<close> elements.
\<close>

theorem calculate_sma_cases:
  "(length prices < period \<and> prices \<noteq> [] \<longrightarrow> calculate_sma prices period = last prices)
   \<and> (0 < period \<and> period \<le> length prices \<longrightarrow>
        calculate_sma prices period
          = sum_list (drop (length prices - period) prices) / real period)"
  by (auto simp: calculate_sma_def np_mean_def last_n_def)

theorem calculate_sma_cases_witness:
  "calculate_sma [1, 3] 5 = 3 \<and> calculate_sma [1, 3, 5] 2 = 4"
  using calculate_sma_cases [of "[1, 3]" 5] calculate_sma_cases [of "[1, 3, 5]" 2]
  by simp

text \<open>The claim as stated fails: for the two prices 1 and 3 and a period of 5 the result
  is 3, and the mean of the available elements is 2.\<close>

theorem calculate_sma_short_counterexample:
  "length [1, 3 :: real] < 5 \<and> [1, 3 :: real] \<noteq> []
   \<and> calculate_sma [1, 3] 5 = 3
   \<and> calculate_sma [1, 3] 5 \<noteq> sum_list [1, 3] / real (length [1, 3 :: real])"
  by (simp add: calculate_sma_def)

text \<open>
  C5 (as amended). For every market state with strategy MEAN\_REVERSION, RSI-7 of 25 and
  RSI-14 of 35, \<open>generate_signal\<close> returns action BUY; the confidence is at least 70 when
  the regime is not NEUTRAL, and at least 55 in every regime (the NEUTRAL regime takes 15
  off).
\<close>

theorem generate_signal_oversold_buy:
  "strategy st = MEAN_REVERSION \<Longrightarrow> rsi_7 st = 25 \<Longrightarrow> rsi_14 st = 35 \<Longrightarrow>
     sig_action (generate_signal st) = BUY
     \<and> 55 \<le> sig_confidence (generate_signal st)
     \<and> (regime st \<noteq> NEUTRAL \<longrightarrow> 70 \<le> sig_confidence (generate_signal st))"
  by (simp add: generate_signal_def Let_def)

theorem generate_signal_oversold_buy_witness:
  "sig_action (generate_signal (oversold_state RANGING)) = BUY
   \<and> 70 \<le> sig_confidence (generate_signal (oversold_state RANGING))"
  using generate_signal_oversold_buy [of "oversold_state RANGING"]
  by (simp add: oversold_state_def)

text \<open>The claim as stated fails: in the NEUTRAL regime, with a flat MACD histogram and
  average volume, the confidence is 55.\<close>

theorem generate_signal_neutral_counterexample:
  "strategy (oversold_state NEUTRAL) = MEAN_REVERSION
   \<and> rsi_7 (oversold_state NEUTRAL) = 25 \<and> rsi_14 (oversold_state NEUTRAL) = 35
   \<and> sig_action (generate_signal (oversold_state NEUTRAL)) = BUY
   \<and> sig_confidence (generate_signal (oversold_state NEUTRAL)) = 55
   \<and> \<not> (70 \<le> sig_confidence (generate_signal (oversold_state NEUTRAL)))"
  by (simp add: generate_signal_def oversold_state_def Let_def)

text \<open>
  C6. For every price array of at least \<open>slow + signal\<close> elements (non-empty, as it is for
  the defaults 26 and 9), \<open>calculate_macd\<close> returns a MACD line \<open>m\<close>, the signal line
  \<open>0.9 * m\<close> and the histogram \<open>m - 0.9 * m\<close>, which is \<open>0.1 * m\<close>.
\<close>

theorem macd_signal_line:
  assumes "slow + signal \<le> length prices" and "prices \<noteq> []"
  shows "\<exists>m. calculate_macd prices fast slow signal = Inr (m, 0.9 * m, m - 0.9 * m)
           \<and> m - 0.9 * m = 0.1 * m"
proof -
  obtain m where "calculate_macd prices fast slow signal = Inr (m, 0.9 * m, m - 0.9 * m)"
    using calculate_macd_shape [OF assms(2)] by blast
  moreover have "m - 0.9 * m = 0.1 * m" by simp
  ultimately show ?thesis by blast
qed

theorem macd_signal_line_witness:
  "\<exists>m. calculate_macd (replicate 34 1 @ [2]) 12 26 9 = Inr (m, 0.9 * m, m - 0.9 * m)
       \<and> m - 0.9 * m = 0.1 * m"
  using macd_signal_line [of 26 9 "replicate 34 1 @ [2]" 12] by simp

text \<open>
  C7 (as amended). The indicator functions return their neutral default under their
  short-input guards, without raising: \<open>calculate_rsi\<close> returns 50 on fewer than
  \<open>period + 1\<close> prices; \<open>calculate_adx\<close> and \<open>calculate_atr\<close> return 0 on fewer than
  \<open>period + 1\<close> closes (whatever the other arrays); \<open>calculate_sma\<close> on fewer than \<open>period\<close>
  prices returns the last price, or 0 on the empty array. \<open>calculate_ema\<close> returns the last
  price, or 0 on the empty array, only on fewer than two prices: from two prices on, also
  when there are fewer than \<open>period\<close>, it returns the value of the recurrence seeded with
  the first price.
\<close>

theorem indicators_short_input_defaults:
  "(length prices < period + 1 \<longrightarrow> calculate_rsi prices period = 50)
   \<and> (length closes < period + 1 \<longrightarrow> calculate_adx highs lows closes period = Inr 0)
   \<and> (length closes < period + 1 \<longrightarrow> calculate_atr highs lows closes period = Inr 0)
   \<and> (length prices < period \<longrightarrow>
        calculate_sma prices period = (if prices = [] then 0 else last prices))
   \<and> (length prices < 2 \<longrightarrow>
        calculate_ema prices period = (if prices = [] then 0 else last prices))
   \<and> (2 \<le> length prices \<longrightarrow>
        calculate_ema prices period = foldl (ema_step period) (hd prices) (tl prices))"
  by (simp add: calculate_rsi_def calculate_adx_def calculate_atr_def calculate_sma_def
      calculate_ema_def)

theorem indicators_short_input_defaults_witness:
  "calculate_rsi [7] 14 = 50
   \<and> calculate_adx [8] [6] [7] 14 = Inr 0
   \<and> calculate_atr [8] [6] [7] 14 = Inr 0
   \<and> calculate_sma [7] 14 = 7
   \<and> calculate_ema [7] 14 = 7
   \<and> calculate_rsi [] 14 = 50
   \<and> calculate_sma [] 14 = 0
   \<and> calculate_ema [] 14 = 0
   \<and> calculate_ema [1, 2, 3] 20 = 563 / 441"
  using indicators_short_input_defaults [of "[7]" 14 "[7]" "[8]" "[6]"]
    indicators_short_input_defaults [of "[]" 14 "[]" "[]" "[]"]
    indicators_short_input_defaults [of "[1, 2, 3]" 20 "[]" "[]" "[]"]
  by (simp add: ema_step_def)

text \<open>The claim as stated fails for \<open>calculate_ema\<close>: three prices are fewer than the
  period of 20, and the result is \<open>563/441\<close>, not the last price 3.\<close>

theorem calculate_ema_short_counterexample:
  "length [1, 2, 3 :: real] < 20
   \<and> calculate_ema [1, 2, 3] 20 = 563 / 441
   \<and> calculate_ema [1, 2, 3] 20 \<noteq> last [1, 2, 3]"
  by (simp add: calculate_ema_def ema_step_def)

text \<open>
  C8. For every non-empty window with high, low and close arrays of one length, and any
  volume array, \<open>analyze_market_v2\<close> returns a market state, and its position-size
  multiplier lies in \<open>[0.25, 1.5]\<close>.
\<close>

theorem position_size_multiplier_bounds:
  assumes "closes \<noteq> []" and "length highs = length closes" and "length lows = length closes"
  shows "\<exists>st. analyze_market_v2 highs lows closes vols = Inr st
           \<and> 0.25 \<le> position_size_multiplier st \<and> position_size_multiplier st \<le> 1.5"
proof -
  obtain a where a: "calculate_adx highs lows closes 14 = Inr a"
    using calculate_adx_returns [OF assms(2,3)] by blast
  obtain m where m: "calculate_macd closes 12 26 9 = Inr (m, 0.9 * m, m - 0.9 * m)"
    using calculate_macd_shape [OF assms(1)] by blast
  obtain t where t: "calculate_atr highs lows closes 14 = Inr t"
    using calculate_atr_returns [OF assms(2,3)] by blast
  obtain r g x where d: "detect_regime a (last closes) (calculate_sma closes 50) 25 20 = (r, g, x)"
    by (cases "detect_regime a (last closes) (calculate_sma closes 50) 25 20") auto
  show ?thesis
    using assms(1)
    apply (simp only: analyze_market_v2_def Let_def a m t d if_False sum.case prod.case)
    apply (intro exI conjI, rule refl)
     apply (simp_all only: MarketState.select_convs clamp_round)
    done
qed

theorem position_size_multiplier_bounds_witness:
  "\<exists>st. analyze_market_v2 rising_high rising_low rising_close (replicate 16 1000) = Inr st
         \<and> 0.25 \<le> position_size_multiplier st \<and> position_size_multiplier st \<le> 1.5"
  using position_size_multiplier_bounds [of rising_close rising_high rising_low "replicate 16 1000"]
  by (simp add: rising_high_def rising_low_def rising_close_def)

text \<open>
  C9. A composite signal whose direction is NEUTRAL, or whose confidence is below 65, is
  not acted on: \<open>execute_signal\<close> returns, and the bot's state (balance, positions,
  trades), the saved state file and the alerts sent are what they were.
\<close>

theorem execute_signal_gate:
  "cs_signal sg = SignalType_NEUTRAL \<or> cs_confidence sg < 65 \<Longrightarrow>
   \<exists>b'. execute_signal b pair sg now = Inr b'
        \<and> state b' = state b
        \<and> saved_state b' = saved_state b
        \<and> alerts_sent b' = alerts_sent b"
  by (auto simp: execute_signal_def)

theorem execute_signal_gate_witness:
  "(\<exists>b'. execute_signal fresh_bot ''BTC''
            \<lparr>cs_signal = SignalType_NEUTRAL, cs_confidence = 90, cs_price = 50000\<rparr> ''t'' = Inr b'
          \<and> state b' = state fresh_bot \<and> saved_state b' = saved_state fresh_bot
          \<and> alerts_sent b' = alerts_sent fresh_bot)
   \<and> (\<exists>b'. execute_signal fresh_bot ''BTC''
            \<lparr>cs_signal = SignalType_STRONG_LONG, cs_confidence = 64, cs_price = 50000\<rparr> ''t'' = Inr b'
          \<and> state b' = state fresh_bot \<and> saved_state b' = saved_state fresh_bot
          \<and> alerts_sent b' = alerts_sent fresh_bot)"
  using execute_signal_gate [of "\<lparr>cs_signal = SignalType_NEUTRAL, cs_confidence = 90, cs_price = 50000\<rparr>"
      fresh_bot "''BTC''" "''t''"]
    execute_signal_gate [of "\<lparr>cs_signal = SignalType_STRONG_LONG, cs_confidence = 64, cs_price = 50000\<rparr>"
      fresh_bot "''BTC''" "''t''"]
  by simp

text \<open>
  C10. On a constant price array of at least \<open>period + 1\<close> elements (and at least two, so
  that there is a delta to average) \<open>calculate_rsi\<close> returns exactly 100, through the
  zero-average-loss branch, and not the neutral 50.
\<close>

theorem calculate_rsi_constant_is_100:
  assumes "period + 1 \<le> n" and "2 \<le> n"
  shows "calculate_rsi (replicate n c) period = 100
         \<and> calculate_rsi (replicate n c) period \<noteq> 50"
  using rsi_flat [OF assms] by simp

theorem calculate_rsi_constant_is_100_witness:
  "calculate_rsi (replicate 60 100) 14 = 100 \<and> calculate_rsi (replicate 60 100) 14 \<noteq> 50"
  using calculate_rsi_constant_is_100 [of 14 60 100] by simp

section \<open>Further properties of the volatility indicators\<close>

text \<open>
  The range of the ADX. For a positive period and high, low and close arrays of one length,
  \<open>calculate_adx\<close> returns a value between 0 and \<open>100 * period\<close>: every DX value lies in
  \<open>[0, 100]\<close>, and the running value of the last smoothing pass stays below its fixed
  point \<open>100 * period\<close>.
\<close>

theorem calculate_adx_range:
  assumes "0 < period" and "length highs = length closes" and "length lows = length closes"
  shows "\<exists>v. calculate_adx highs lows closes period = Inr v \<and> 0 \<le> v \<and> v \<le> 100 * real period"
proof (cases "length closes < period + 1")
  case True
  then show ?thesis by (simp add: calculate_adx_def)
next
  case False
  obtain atr sp sm ad where
    sp: "wilder_smooth
       (map2 (\<lambda>u d. if u > d \<and> u > 0 then u else 0)
          (map2 (\<lambda>a b. a - b) (tl highs) (butlast highs))
          (map2 (\<lambda>a b. a - b) (butlast lows) (tl lows))) period = Inr sp"
    and sm: "wilder_smooth
       (map2 (\<lambda>u d. if d > u \<and> d > 0 then d else 0)
          (map2 (\<lambda>a b. a - b) (tl highs) (butlast highs))
          (map2 (\<lambda>a b. a - b) (butlast lows) (tl lows))) period = Inr sm"
    and ad: "wilder_smooth
       (map2 (\<lambda>p m. 100 * \<bar>p - m\<bar> / (if p + m > 0 then p + m else 1))
          (map2 (\<lambda>s a. 100 * s / (if a > 0 then a else 1)) sp atr)
          (map2 (\<lambda>s a. 100 * s / (if a > 0 then a else 1)) sm atr)) period = Inr ad"
    and v: "calculate_adx highs lows closes period = Inr (if length ad > 0 then last ad else 0)"
    using calculate_adx_stages [OF assms(2,3) False] by blast
  have spn: "\<forall>x\<in>set sp. 0 \<le> x"
    by (rule wilder_smooth_nonneg [OF assms(1) sp dm_nonneg(1)])
  have smn: "\<forall>x\<in>set sm. 0 \<le> x"
    by (rule wilder_smooth_nonneg [OF assms(1) sm dm_nonneg(2)])
  have adb: "\<forall>y\<in>set ad. 0 \<le> y \<and> y \<le> 100 * real period"
    by (rule wilder_smooth_bounded [OF assms(1) ad dx_bounds [OF di_nonneg [OF spn] di_nonneg [OF smn]]])
  have "0 \<le> (if length ad > 0 then last ad else 0)
        \<and> (if length ad > 0 then last ad else 0) \<le> 100 * real period"
  proof (cases "ad = []")
    case True
    then show ?thesis by simp
  next
    case False
    then have "last ad \<in> set ad" by simp
    then show ?thesis using adb False by auto
  qed
  then show ?thesis using v by simp
qed

theorem calculate_adx_range_witness:
  "\<exists>v. calculate_adx rising_high rising_low rising_close 14 = Inr v \<and> 0 \<le> v \<and> v \<le> 100 * real 14"
  using calculate_adx_range [of 14 rising_high rising_close rising_low]
  by (simp add: rising_high_def rising_low_def rising_close_def)

text \<open>
  The sign of the ATR. For a positive period and high, low and close arrays of one length,
  \<open>calculate_atr\<close> returns a non-negative value.
\<close>

theorem calculate_atr_nonneg:
  assumes "0 < period" and "length highs = length closes" and "length lows = length closes"
  shows "\<exists>v. calculate_atr highs lows closes period = Inr v \<and> 0 \<le> v"
proof -
  have "0 \<le> np_mean (last_n period (true_range highs lows closes))"
    using true_range_nonneg [of highs lows closes] set_last_n [of period "true_range highs lows closes"]
    by (intro np_mean_nonneg) auto
  then show ?thesis using assms(2,3) by (simp add: calculate_atr_def)
qed

theorem calculate_atr_nonneg_witness:
  "\<exists>v. calculate_atr rising_high rising_low rising_close 14 = Inr v \<and> 0 \<le> v"
  using calculate_atr_nonneg [of 14 rising_high rising_close rising_low]
  by (simp add: rising_high_def rising_low_def rising_close_def)

end
